theory Spec2Isabelle
  imports Main
begin

section \<open>Data model (\<open>src/types/task.ts\<close>, \<open>src/types/api.ts\<close>)\<close>

text \<open>
  \<open>Priority\<close> is the string union \<open>"low" | "medium" | "high"\<close>.  An optional field
  (\<open>description?: string\<close>) or a nullable one (\<open>Task | null\<close>) is an \<open>option\<close>,
  with \<open>None\<close> for \<open>undefined\<close> / \<open>null\<close>.  The field \<open>_id\<close> is called
  \<open>task_id\<close>, since an Isabelle name cannot start with an underscore.
\<close>

datatype Priority = Low | Medium | High

text \<open>
  The \<open>page\<close> and \<open>limit\<close> of a filter are JavaScript numbers that the service tests
  for truthiness and prints with \<open>String\<close>.  The type \<open>number\<close> holds the numbers on
  which both are modelled exactly: the safe integers, from \<open>-(2^53 - 1)\<close> to
  \<open>2^53 - 1\<close>, which \<open>String\<close> prints digit by digit, and \<open>NaN\<close>.  The bound is part
  of the type: a fraction, an infinity or an integer beyond the safe range (printed with
  rounded digits, and with an exponent from \<open>10^21\<close> on) is no value of it.  Negative zero
  is not told apart from zero: it is falsy as zero is.  \<open>number_of n\<close> is the number
  \<open>n\<close>, for \<open>n\<close> in the safe range; it is used for the literals \<open>0\<close>, \<open>1\<close>,
  \<open>2\<close>, \<open>10\<close> and \<open>25\<close> only, and nothing is stated of it outside the range.
\<close>

typedef safe_integer = "{n :: int. - 9007199254740991 \<le> n \<and> n \<le> 9007199254740991}"
  by (rule exI [of _ 0]) simp

datatype number = SafeInteger safe_integer | NaN

definition number_of :: "int \<Rightarrow> number" where
  "number_of n = SafeInteger (Abs_safe_integer n)"

text \<open>
  The totals and page numbers of a paginated response and of the state's pagination are
  only copied by the modelled code, never tested or printed; they are \<open>int\<close>.
\<close>

record Task =
  task_id :: string
  title :: string
  description :: "string option"
  completed :: bool
  priority :: Priority
  dueDate :: "string option"
  createdAt :: string
  updatedAt :: string

record TaskFilters =
  filter_completed :: "bool option"
  filter_priority :: "Priority option"
  filter_page :: "number option"
  filter_limit :: "number option"

record PaginatedResponse =
  resp_data :: "Task list"
  resp_total :: int
  resp_page :: int
  resp_limit :: int
  resp_totalPages :: int

record Pagination =
  page :: int
  limit :: int
  total :: int
  totalPages :: int

record TaskState =
  tasks :: "Task list"
  currentTask :: "Task option"
  isLoading :: bool
  error :: "string option"
  filters :: TaskFilters
  pagination :: Pagination

definition initialState :: TaskState where
  "initialState =
     \<lparr>tasks = [], currentTask = None, isLoading = False, error = None,
      filters = \<lparr>filter_completed = None, filter_priority = None,
                 filter_page = Some (number_of 1), filter_limit = Some (number_of 10)\<rparr>,
      pagination = \<lparr>page = 1, limit = 10, total = 0, totalPages = 0\<rparr>\<rparr>"


section \<open>The task slice (\<open>src/store/taskSlice.ts\<close>)\<close>

text \<open>
  Every case reducer of the slice mutates an Immer draft; the model returns the next state.
  \<open>Array.prototype.findIndex\<close> returns the first index whose element satisfies the
  predicate, and \<open>-1\<close> when there is none.
\<close>

fun findIndex_from :: "('a \<Rightarrow> bool) \<Rightarrow> 'a list \<Rightarrow> int \<Rightarrow> int" where
  "findIndex_from P [] i = - 1"
| "findIndex_from P (x # xs) i = (if P x then i else findIndex_from P xs (i + 1))"

definition findIndex :: "('a \<Rightarrow> bool) \<Rightarrow> 'a list \<Rightarrow> int" where
  "findIndex P xs = findIndex_from P xs 0"

subsection \<open>\<open>reducers\<close>\<close>

text \<open>
  \<open>setFilters\<close> is \<open>state.filters = { ...state.filters, ...action.payload }\<close>.  The
  payload is a partial filter object: a key may be absent, or present with a value, which
  may be \<open>undefined\<close> (the view clears a filter with
  \<open>{ completed: undefined, priority: undefined, page: 1 }\<close>).  The spread copies every
  key the payload has, also one whose value is \<open>undefined\<close>; a key the payload lacks
  keeps the state's value.  In the payload, \<open>None\<close> is an absent key, \<open>Some None\<close> a
  key whose value is \<open>undefined\<close>, \<open>Some (Some v)\<close> a key with the value \<open>v\<close>.
\<close>

record PartialTaskFilters =
  payload_completed :: "bool option option"
  payload_priority :: "Priority option option"
  payload_page :: "number option option"
  payload_limit :: "number option option"

definition spread_field :: "'a option \<Rightarrow> 'a option option \<Rightarrow> 'a option" where
  "spread_field old new = (case new of None \<Rightarrow> old | Some v \<Rightarrow> v)"

definition setFilters :: "TaskState \<Rightarrow> PartialTaskFilters \<Rightarrow> TaskState" where
  "setFilters state payload =
     state\<lparr>filters :=
       \<lparr>filter_completed = spread_field (filter_completed (filters state)) (payload_completed payload),
        filter_priority = spread_field (filter_priority (filters state)) (payload_priority payload),
        filter_page = spread_field (filter_page (filters state)) (payload_page payload),
        filter_limit = spread_field (filter_limit (filters state)) (payload_limit payload)\<rparr>\<rparr>"

definition clearCurrentTask :: "TaskState \<Rightarrow> TaskState" where
  "clearCurrentTask state = state\<lparr>currentTask := None\<rparr>"

definition clearError :: "TaskState \<Rightarrow> TaskState" where
  "clearError state = state\<lparr>error := None\<rparr>"

subsection \<open>\<open>extraReducers\<close>: the lifecycle of the five thunks\<close>

definition fetchTasks_pending :: "TaskState \<Rightarrow> TaskState" where
  "fetchTasks_pending state = state\<lparr>isLoading := True, error := None\<rparr>"

definition fetchTasks_fulfilled :: "TaskState \<Rightarrow> PaginatedResponse \<Rightarrow> TaskState" where
  "fetchTasks_fulfilled state payload =
     state\<lparr>isLoading := False,
           tasks := resp_data payload,
           pagination := \<lparr>page = resp_page payload, limit = resp_limit payload,
                           total = resp_total payload, totalPages = resp_totalPages payload\<rparr>\<rparr>"

definition fetchTasks_rejected :: "TaskState \<Rightarrow> string \<Rightarrow> TaskState" where
  "fetchTasks_rejected state payload = state\<lparr>isLoading := False, error := Some payload\<rparr>"

definition fetchTask_pending :: "TaskState \<Rightarrow> TaskState" where
  "fetchTask_pending state = state\<lparr>isLoading := True, error := None\<rparr>"

definition fetchTask_fulfilled :: "TaskState \<Rightarrow> Task \<Rightarrow> TaskState" where
  "fetchTask_fulfilled state payload = state\<lparr>isLoading := False, currentTask := Some payload\<rparr>"

definition fetchTask_rejected :: "TaskState \<Rightarrow> string \<Rightarrow> TaskState" where
  "fetchTask_rejected state payload = state\<lparr>isLoading := False, error := Some payload\<rparr>"

definition createTask_pending :: "TaskState \<Rightarrow> TaskState" where
  "createTask_pending state = state\<lparr>isLoading := True, error := None\<rparr>"

text \<open>\<open>state.tasks.unshift(action.payload)\<close> puts the new task in front.\<close>

definition createTask_fulfilled :: "TaskState \<Rightarrow> Task \<Rightarrow> TaskState" where
  "createTask_fulfilled state payload = state\<lparr>isLoading := False, tasks := payload # tasks state\<rparr>"

definition createTask_rejected :: "TaskState \<Rightarrow> string \<Rightarrow> TaskState" where
  "createTask_rejected state payload = state\<lparr>isLoading := False, error := Some payload\<rparr>"

definition updateTask_pending :: "TaskState \<Rightarrow> TaskState" where
  "updateTask_pending state = state\<lparr>isLoading := True, error := None\<rparr>"

text \<open>
  \<open>state.currentTask?._id === action.payload._id\<close> is false when \<open>currentTask\<close> is
  \<open>null\<close>: the optional chain gives \<open>undefined\<close>, which is no string.
\<close>

definition currentTask_has_id :: "TaskState \<Rightarrow> string \<Rightarrow> bool" where
  "currentTask_has_id state i =
     (case currentTask state of None \<Rightarrow> False | Some t \<Rightarrow> task_id t = i)"

definition updateTask_fulfilled :: "TaskState \<Rightarrow> Task \<Rightarrow> TaskState" where
  "updateTask_fulfilled state payload =
     (let state1 = state\<lparr>isLoading := False\<rparr>;
          index = findIndex (\<lambda>task. task_id task = task_id payload) (tasks state1);
          state2 = (if index \<noteq> - 1
                    then state1\<lparr>tasks := (tasks state1)[nat index := payload]\<rparr>
                    else state1)
      in if currentTask_has_id state2 (task_id payload)
         then state2\<lparr>currentTask := Some payload\<rparr>
         else state2)"

definition updateTask_rejected :: "TaskState \<Rightarrow> string \<Rightarrow> TaskState" where
  "updateTask_rejected state payload = state\<lparr>isLoading := False, error := Some payload\<rparr>"

definition deleteTask_pending :: "TaskState \<Rightarrow> TaskState" where
  "deleteTask_pending state = state\<lparr>isLoading := True, error := None\<rparr>"

definition deleteTask_fulfilled :: "TaskState \<Rightarrow> string \<Rightarrow> TaskState" where
  "deleteTask_fulfilled state payload =
     (let state1 = state\<lparr>isLoading := False,
                          tasks := filter (\<lambda>task. task_id task \<noteq> payload) (tasks state)\<rparr>
      in if currentTask_has_id state1 payload
         then state1\<lparr>currentTask := None\<rparr>
         else state1)"

definition deleteTask_rejected :: "TaskState \<Rightarrow> string \<Rightarrow> TaskState" where
  "deleteTask_rejected state payload = state\<lparr>isLoading := False, error := Some payload\<rparr>"

subsection \<open>The slice reducer\<close>

text \<open>
  The actions the slice handles: its three plain reducers and, for each thunk, the
  \<open>pending\<close>, \<open>fulfilled\<close> and \<open>rejected\<close> action with its payload.
\<close>

datatype thunk = FetchTasks | FetchTask | CreateTask | UpdateTask | DeleteTask

datatype fulfilled_payload =
    FetchTasksResult PaginatedResponse
  | FetchTaskResult Task
  | CreateTaskResult Task
  | UpdateTaskResult Task
  | DeleteTaskResult string

datatype action =
    SetFilters PartialTaskFilters
  | ClearCurrentTask
  | ClearError
  | Pending thunk
  | Fulfilled fulfilled_payload
  | Rejected thunk string

fun taskReducer :: "TaskState \<Rightarrow> action \<Rightarrow> TaskState" where
  "taskReducer state (SetFilters payload) = setFilters state payload"
| "taskReducer state ClearCurrentTask = clearCurrentTask state"
| "taskReducer state ClearError = clearError state"
| "taskReducer state (Pending FetchTasks) = fetchTasks_pending state"
| "taskReducer state (Fulfilled (FetchTasksResult payload)) = fetchTasks_fulfilled state payload"
| "taskReducer state (Rejected FetchTasks payload) = fetchTasks_rejected state payload"
| "taskReducer state (Pending FetchTask) = fetchTask_pending state"
| "taskReducer state (Fulfilled (FetchTaskResult payload)) = fetchTask_fulfilled state payload"
| "taskReducer state (Rejected FetchTask payload) = fetchTask_rejected state payload"
| "taskReducer state (Pending CreateTask) = createTask_pending state"
| "taskReducer state (Fulfilled (CreateTaskResult payload)) = createTask_fulfilled state payload"
| "taskReducer state (Rejected CreateTask payload) = createTask_rejected state payload"
| "taskReducer state (Pending UpdateTask) = updateTask_pending state"
| "taskReducer state (Fulfilled (UpdateTaskResult payload)) = updateTask_fulfilled state payload"
| "taskReducer state (Rejected UpdateTask payload) = updateTask_rejected state payload"
| "taskReducer state (Pending DeleteTask) = deleteTask_pending state"
| "taskReducer state (Fulfilled (DeleteTaskResult payload)) = deleteTask_fulfilled state payload"
| "taskReducer state (Rejected DeleteTask payload) = deleteTask_rejected state payload"


section \<open>The tasks service (\<open>src/services/tasks.ts\<close>)\<close>

text \<open>
  \<open>String(b)\<close> of a boolean is \<open>"true"\<close> or \<open>"false"\<close>; a \<open>Priority\<close> is already
  a string.  \<open>decimal_of_int\<close> writes the decimal numeral of an integer, with a leading
  \<open>-\<close> when negative.  \<open>String(n)\<close> of a safe integer is that numeral, which is
  why \<open>String_number\<close> is defined on the type \<open>number\<close> only; \<open>String(NaN)\<close> is
  \<open>"NaN"\<close>.
\<close>

definition String_boolean :: "bool \<Rightarrow> string" where
  "String_boolean b = (if b then ''true'' else ''false'')"

fun Priority_string :: "Priority \<Rightarrow> string" where
  "Priority_string Low = ''low''"
| "Priority_string Medium = ''medium''"
| "Priority_string High = ''high''"

definition digit_char :: "nat \<Rightarrow> char" where
  "digit_char d = ''0123456789'' ! d"

fun digits_of_nat :: "nat \<Rightarrow> string" where
  "digits_of_nat n = (if n < 10 then [digit_char n] else digits_of_nat (n div 10) @ [digit_char (n mod 10)])"

declare digits_of_nat.simps [simp del]

definition decimal_of_int :: "int \<Rightarrow> string" where
  "decimal_of_int n = (if n < 0 then CHR ''-'' # digits_of_nat (nat (- n)) else digits_of_nat (nat n))"

fun String_number :: "number \<Rightarrow> string" where
  "String_number (SafeInteger i) = decimal_of_int (Rep_safe_integer i)"
| "String_number NaN = ''NaN''"

text \<open>
  The truthiness tests of \<open>if (filters?.priority)\<close> and \<open>if (filters?.page)\<close>: a
  string is falsy when empty, a number when it is zero or \<open>NaN\<close>.
\<close>

definition truthy_string :: "string \<Rightarrow> bool" where
  "truthy_string s = (s \<noteq> [])"

fun truthy_number :: "number \<Rightarrow> bool" where
  "truthy_number (SafeInteger i) = (Rep_safe_integer i \<noteq> 0)"
| "truthy_number NaN = False"

text \<open>
  \<open>URLSearchParams\<close> is an ordered list of name/value pairs; \<open>append\<close> adds a pair
  at the end.  \<open>toString\<close> is the \<open>application/x-www-form-urlencoded\<close> serializer:
  pairs joined by \<open>&\<close>, name and value joined by \<open>=\<close>, a space written \<open>+\<close>, every
  byte other than an ASCII letter, a digit, \<open>*\<close>, \<open>-\<close>, \<open>.\<close> and \<open>_\<close> written as
  \<open>%\<close> and two upper-case hexadecimal digits.  A \<open>string\<close> here is the UTF-8 byte
  sequence of the JavaScript string.
\<close>

type_synonym URLSearchParams = "(string \<times> string) list"

definition append_param :: "URLSearchParams \<Rightarrow> string \<Rightarrow> string \<Rightarrow> URLSearchParams" where
  "append_param params name v = params @ [(name, v)]"

definition urlencoded_keep :: "char \<Rightarrow> bool" where
  "urlencoded_keep c =
     (c \<in> set ''ABCDEFGHIJKLMNOPQRSTUVWXYZabcdefghijklmnopqrstuvwxyz0123456789*-._'')"

definition hex_char :: "nat \<Rightarrow> char" where
  "hex_char d = ''0123456789ABCDEF'' ! d"

definition urlencoded_byte :: "char \<Rightarrow> string" where
  "urlencoded_byte c =
     (if c = CHR '' '' then ''+''
      else if urlencoded_keep c then [c]
      else [CHR ''%'', hex_char (of_char c div 16), hex_char (of_char c mod 16)])"

definition urlencoded_string :: "string \<Rightarrow> string" where
  "urlencoded_string s = concat (map urlencoded_byte s)"

fun URLSearchParams_toString :: "URLSearchParams \<Rightarrow> string" where
  "URLSearchParams_toString [] = []"
| "URLSearchParams_toString [(k, v)] = urlencoded_string k @ ''='' @ urlencoded_string v"
| "URLSearchParams_toString ((k, v) # p # ps) =
     urlencoded_string k @ ''='' @ urlencoded_string v @ ''&'' @ URLSearchParams_toString (p # ps)"

text \<open>
  \<open>filters?.completed\<close>: \<open>undefined\<close> when \<open>filters\<close> is \<open>undefined\<close>, the field
  otherwise.  The argument \<open>filters\<close> of \<open>getTasks\<close> is written \<open>fs\<close>, since
  \<open>filters\<close> is a field of the task state.
\<close>

definition optional_chain :: "'a option \<Rightarrow> ('a \<Rightarrow> 'b option) \<Rightarrow> 'b option" where
  "optional_chain obj field = (case obj of None \<Rightarrow> None | Some x \<Rightarrow> field x)"

definition getTasks_params :: "TaskFilters option \<Rightarrow> URLSearchParams" where
  "getTasks_params fs =
     (let params0 = [];
          params1 = (case optional_chain fs filter_completed of
                       Some c \<Rightarrow> append_param params0 ''completed'' (String_boolean c)
                     | None \<Rightarrow> params0);
          params2 = (case optional_chain fs filter_priority of
                       Some p \<Rightarrow> if truthy_string (Priority_string p)
                                 then append_param params1 ''priority'' (Priority_string p)
                                 else params1
                     | None \<Rightarrow> params1);
          params3 = (case optional_chain fs filter_page of
                       Some n \<Rightarrow> if truthy_number n
                                 then append_param params2 ''page'' (String_number n)
                                 else params2
                     | None \<Rightarrow> params2);
          params4 = (case optional_chain fs filter_limit of
                       Some n \<Rightarrow> if truthy_number n
                                 then append_param params3 ''limit'' (String_number n)
                                 else params3
                     | None \<Rightarrow> params3)
      in params4)"

text \<open>
  \<open>getTasks\<close> requests \<open>`/api/tasks?${params.toString()}`\<close>; the query string is the
  part after the question mark.
\<close>

definition getTasks_query :: "TaskFilters option \<Rightarrow> string" where
  "getTasks_query fs = URLSearchParams_toString (getTasks_params fs)"

definition getTasks_url :: "TaskFilters option \<Rightarrow> string" where
  "getTasks_url fs = ''/api/tasks?'' @ getTasks_query fs"


section \<open>The HTTP clients (\<open>src/services/api.ts\<close>, \<open>src/lib/api.ts\<close>) and the auth slice\<close>

text \<open>
  The interceptors read and write ambient globals.  The model passes them explicitly:
  whether \<open>typeof window !== "undefined"\<close> holds (a browser), the content of
  \<open>localStorage\<close>, the targets assigned to \<open>window.location.href\<close> so far (each
  assignment starts a navigation) and the messages given to \<open>toast.error\<close> so far.
  An environment of the model always has a \<open>localStorage\<close>; where \<open>window\<close> is not
  defined the interceptors do not look at it.
\<close>

record Environment =
  window_defined :: bool
  localStorage :: "string \<rightharpoonup> string"
  navigations :: "string list"
  toasts :: "string list"

definition getItem :: "Environment \<Rightarrow> string \<Rightarrow> string option" where
  "getItem env key = localStorage env key"

definition setItem :: "string \<Rightarrow> string \<Rightarrow> Environment \<Rightarrow> Environment" where
  "setItem key v env = env\<lparr>localStorage := (localStorage env)(key \<mapsto> v)\<rparr>"

definition removeItem :: "string \<Rightarrow> Environment \<Rightarrow> Environment" where
  "removeItem key env = env\<lparr>localStorage := (localStorage env)(key := None)\<rparr>"

definition location_href_assign :: "string \<Rightarrow> Environment \<Rightarrow> Environment" where
  "location_href_assign target env = env\<lparr>navigations := navigations env @ [target]\<rparr>"

definition toast_error :: "string \<Rightarrow> Environment \<Rightarrow> Environment" where
  "toast_error message env = env\<lparr>toasts := toasts env @ [message]\<rparr>"

text \<open>
  The request configuration an interceptor receives.  For the client \<open>api\<close> of
  \<open>src/services/api.ts\<close>, \<open>axios.create\<close> fixes the base URL
  (\<open>process.env.NEXT_PUBLIC_API_URL || "http://localhost:8080/api"\<close>), the timeout and
  the \<open>Content-Type\<close> header; axios adds its default \<open>Accept\<close> header; a call such
  as \<open>api.get(url)\<close> adds the method (the field \<open>http_method\<close>) and the URL, and no
  header of its own.
\<close>

record RequestConfig =
  baseURL :: string
  timeout :: int
  headers :: "string \<rightharpoonup> string"
  http_method :: string
  url :: string

definition or_default :: "string option \<Rightarrow> string \<Rightarrow> string" where
  "or_default v d = (case v of None \<Rightarrow> d | Some s \<Rightarrow> if truthy_string s then s else d)"

definition api_create :: "string option \<Rightarrow> RequestConfig" where
  "api_create NEXT_PUBLIC_API_URL =
     \<lparr>baseURL = or_default NEXT_PUBLIC_API_URL ''http://localhost:8080/api'',
      timeout = 15000,
      headers = [''Accept'' \<mapsto> ''application/json, text/plain, */*'',
                 ''Content-Type'' \<mapsto> ''application/json''],
      http_method = ''get'',
      url = []\<rparr>"

definition api_request_interceptor :: "Environment \<Rightarrow> RequestConfig \<Rightarrow> RequestConfig" where
  "api_request_interceptor env config =
     (if window_defined env
      then (case getItem env ''token'' of
              Some token \<Rightarrow>
                if truthy_string token
                then config\<lparr>headers := (headers config)(''Authorization'' \<mapsto> ''Bearer '' @ token)\<rparr>
                else config
            | None \<Rightarrow> config)
      else config)"

definition api_request :: "Environment \<Rightarrow> string option \<Rightarrow> string \<Rightarrow> string \<Rightarrow> RequestConfig" where
  "api_request env NEXT_PUBLIC_API_URL m u =
     api_request_interceptor env ((api_create NEXT_PUBLIC_API_URL)\<lparr>http_method := m, url := u\<rparr>)"

text \<open>
  A response, as far as the interceptors look at it: its HTTP status and
  \<open>response.data?.message\<close> (\<open>None\<close> when the body or its message is missing).  The
  error a failed request is rejected with carries the response as \<open>error.response\<close>,
  which is \<open>undefined\<close> when no response arrived (timeout, no connection).  With the
  default \<open>validateStatus\<close> a response whose status is not 2xx, so also a 401, reaches
  the second handler of the response interceptor, inside such an error.  A promise that is
  rejected with \<open>e\<close> is \<open>Inl e\<close>, one that is resolved with \<open>r\<close> is \<open>Inr r\<close>.
\<close>

record AxiosResponse =
  status :: int
  data_message :: "string option"

record AxiosError =
  error_message :: string
  response :: "AxiosResponse option"

definition api_response_fulfilled ::
  "Environment \<Rightarrow> AxiosResponse \<Rightarrow> Environment \<times> (AxiosError + AxiosResponse)" where
  "api_response_fulfilled env r = (env, Inr r)"

definition api_response_rejected ::
  "Environment \<Rightarrow> AxiosError \<Rightarrow> Environment \<times> (AxiosError + AxiosResponse)" where
  "api_response_rejected env err =
     (let env1 = (if optional_chain (response err) (\<lambda>r. Some (status r)) = Some 401
                  then (if window_defined env
                        then location_href_assign ''/auth/login'' (removeItem ''token'' env)
                        else env)
                  else env);
          message = or_default (optional_chain (response err) data_message) ''Something went wrong'';
          env2 = toast_error message env1
      in (env2, Inl err))"

text \<open>
  The client \<open>apiClient\<close> of \<open>src/lib/api.ts\<close>: no timeout (axios's default,
  \<open>0\<close>), no response interceptor, and the token read under the key \<open>authToken\<close>.
\<close>

definition apiClient_create :: "string option \<Rightarrow> RequestConfig" where
  "apiClient_create NEXT_PUBLIC_API_URL =
     \<lparr>baseURL = or_default NEXT_PUBLIC_API_URL ''http://localhost:3000/api'',
      timeout = 0,
      headers = [''Accept'' \<mapsto> ''application/json, text/plain, */*'',
                 ''Content-Type'' \<mapsto> ''application/json''],
      http_method = ''get'',
      url = []\<rparr>"

definition apiClient_request_interceptor :: "Environment \<Rightarrow> RequestConfig \<Rightarrow> RequestConfig" where
  "apiClient_request_interceptor env config =
     (if window_defined env
      then (case getItem env ''authToken'' of
              Some token \<Rightarrow>
                if truthy_string token
                then config\<lparr>headers := (headers config)(''Authorization'' \<mapsto> ''Bearer '' @ token)\<rparr>
                else config
            | None \<Rightarrow> config)
      else config)"

definition apiClient_request :: "Environment \<Rightarrow> string option \<Rightarrow> string \<Rightarrow> string \<Rightarrow> RequestConfig" where
  "apiClient_request env NEXT_PUBLIC_API_URL m u =
     apiClient_request_interceptor env ((apiClient_create NEXT_PUBLIC_API_URL)\<lparr>http_method := m, url := u\<rparr>)"

text \<open>
  The auth slice (\<open>src/store/authSlice.ts\<close>).  \<open>logOut\<close> clears the token and the user
  and calls \<open>localStorage.removeItem("authToken")\<close>, with no test of \<open>window\<close>: it
  removes the item wherever a \<open>localStorage\<close> is bound, which every environment of the
  model has.
\<close>

record User =
  user_id :: string
  name :: string
  email :: string

record AuthState =
  token :: "string option"
  user :: "User option"

definition setCredentials :: "AuthState \<Rightarrow> string \<Rightarrow> User \<Rightarrow> AuthState" where
  "setCredentials state t u = state\<lparr>token := Some t, user := Some u\<rparr>"

definition logOut :: "AuthState \<Rightarrow> Environment \<Rightarrow> AuthState \<times> Environment" where
  "logOut state env = (state\<lparr>token := None, user := None\<rparr>, removeItem ''authToken'' env)"

text \<open>
  The writes to \<open>localStorage\<close> that code of the application performs, and a run of
  them.
\<close>

datatype storage_write = SetItem string string | RemoveItem string

fun storage_step :: "Environment \<Rightarrow> storage_write \<Rightarrow> Environment" where
  "storage_step env (SetItem key v) = setItem key v env"
| "storage_step env (RemoveItem key) = removeItem key env"

definition storage_run :: "Environment \<Rightarrow> storage_write list \<Rightarrow> Environment" where
  "storage_run env ws = foldl storage_step env ws"


section \<open>What the \<open>fetchTasks\<close> thunk dispatches\<close>

text \<open>
  The case reducers above are typed: \<open>fetchTasks.fulfilled\<close> reads \<open>data\<close>, \<open>page\<close>,
  \<open>limit\<close>, \<open>total\<close> and \<open>totalPages\<close> of a payload declared
  \<open>PaginatedResponse<Task>\<close>.  What the payload is at run time is decided by the thunk
  and the service.  For that, a JavaScript value is a number, a string, an array of tasks,
  \<open>undefined\<close> or an object, and an object is the list of its properties; reading a
  property an object does not have gives \<open>undefined\<close>.
\<close>

datatype js_value =
    Undefined
  | Number int
  | Text string
  | TaskArray "Task list"
  | Object "(string \<times> js_value) list"

type_synonym js_object = "(string \<times> js_value) list"

definition get_property :: "js_object \<Rightarrow> string \<Rightarrow> js_value" where
  "get_property obj key = (case map_of obj key of None \<Rightarrow> Undefined | Some v \<Rightarrow> v)"

text \<open>
  The body the server sends for a page of tasks, and the object \<open>api.get\<close> resolves to
  for a successful request: the axios response, which holds the body under \<open>data\<close>
  (the response interceptor passes it on as it is, \<open>(response) => response\<close>).
\<close>

definition PaginatedResponse_object :: "PaginatedResponse \<Rightarrow> js_object" where
  "PaginatedResponse_object p =
     [(''data'', TaskArray (resp_data p)), (''total'', Number (resp_total p)),
      (''page'', Number (resp_page p)), (''limit'', Number (resp_limit p)),
      (''totalPages'', Number (resp_totalPages p))]"

definition axios_response_object :: "js_value \<Rightarrow> js_object" where
  "axios_response_object body =
     [(''data'', body), (''status'', Number 200), (''statusText'', Text ''OK''),
      (''headers'', Object []), (''config'', Object []), (''request'', Object [])]"

text \<open>
  \<open>getTasks\<close> returns \<open>api.get(...)\<close>, and the \<open>fetchTasks\<close> thunk returns what
  \<open>getTasks\<close> resolves to (\<open>const response = await tasksService.getTasks(filters);
  return response\<close>): the payload of \<open>fetchTasks.fulfilled\<close> is the axios response.
  The sibling thunks \<open>fetchTask\<close>, \<open>createTask\<close> and \<open>updateTask\<close> return
  \<open>response.data\<close>, the body.
\<close>

definition getTasks_resolved :: "js_value \<Rightarrow> js_object" where
  "getTasks_resolved body = axios_response_object body"

definition fetchTasks_payload :: "js_value \<Rightarrow> js_object" where
  "fetchTasks_payload body = (let response = getTasks_resolved body in response)"

definition getTask_resolved :: "js_value \<Rightarrow> js_object" where
  "getTask_resolved body = axios_response_object body"

definition fetchTask_payload :: "js_value \<Rightarrow> js_value" where
  "fetchTask_payload body = (let response = getTask_resolved body in get_property response ''data'')"

text \<open>
  The object \<open>fetchTasks.fulfilled\<close> assigns to \<open>state.pagination\<close>, read off the
  payload property by property as the reducer does.
\<close>

definition fetchTasks_fulfilled_pagination :: "js_object \<Rightarrow> js_object" where
  "fetchTasks_fulfilled_pagination payload =
     [(''page'', get_property payload ''page''),
      (''limit'', get_property payload ''limit''),
      (''total'', get_property payload ''total''),
      (''totalPages'', get_property payload ''totalPages'')]"


section \<open>Concrete instances\<close>

text \<open>Sample tasks for the concrete instances below.\<close>

definition sample_task :: "string \<Rightarrow> string \<Rightarrow> Task" where
  "sample_task i t =
     \<lparr>task_id = i, title = t, description = None, completed = False, priority = Medium,
      dueDate = None, createdAt = ''2024-01-01'', updatedAt = ''2024-01-01''\<rparr>"

definition sample_state :: TaskState where
  "sample_state =
     initialState\<lparr>tasks := [sample_task ''a'' ''one'', sample_task ''b'' ''two'',
                            sample_task ''c'' ''three''],
                  currentTask := Some (sample_task ''b'' ''two''),
                  pagination := \<lparr>page = 1, limit = 10, total = 3, totalPages = 1\<rparr>\<rparr>"


text \<open>
  The response of the example: five tasks of page 2, 47 tasks in all, 10 to a page, and
  the number of pages the server reports.
\<close>

definition sample_response :: "int \<Rightarrow> PaginatedResponse" where
  "sample_response tp =
     \<lparr>resp_data = [sample_task ''p'' ''eleven'', sample_task ''q'' ''twelve'',
                   sample_task ''r'' ''thirteen'', sample_task ''s'' ''fourteen'',
                   sample_task ''t'' ''fifteen''],
      resp_total = 47, resp_page = 2, resp_limit = 10, resp_totalPages = tp\<rparr>"


text \<open>
  Four filters: the one of the example, one whose page and limit are zero and whose
  completion flag is \<open>false\<close>, one whose page is zero, and one whose page and limit
  are \<open>NaN\<close>.
\<close>

definition example_filter :: TaskFilters where
  "example_filter =
     \<lparr>filter_completed = Some True, filter_priority = Some High,
      filter_page = Some (number_of 2), filter_limit = Some (number_of 10)\<rparr>"

definition falsy_filter :: TaskFilters where
  "falsy_filter =
     \<lparr>filter_completed = Some False, filter_priority = None,
      filter_page = Some (number_of 0), filter_limit = Some (number_of 0)\<rparr>"

definition page_zero_filter :: TaskFilters where
  "page_zero_filter =
     \<lparr>filter_completed = None, filter_priority = None,
      filter_page = Some (number_of 0), filter_limit = Some (number_of 25)\<rparr>"


text \<open>
  A browser with a token under either key, a server (no \<open>window\<close>, an empty storage),
  a 401 error, and a logged-in auth state.
\<close>

definition nan_filter :: TaskFilters where
  "nan_filter =
     \<lparr>filter_completed = Some True, filter_priority = None,
      filter_page = Some NaN, filter_limit = Some NaN\<rparr>"


definition browser_env :: Environment where
  "browser_env =
     \<lparr>window_defined = True,
      localStorage = [''token'' \<mapsto> ''abc'', ''authToken'' \<mapsto> ''xyz''],
      navigations = [], toasts = []\<rparr>"

definition server_env :: Environment where
  "server_env =
     \<lparr>window_defined = False, localStorage = Map.empty, navigations = [], toasts = []\<rparr>"

definition unauthorized :: AxiosError where
  "unauthorized =
     \<lparr>error_message = ''Request failed with status code 401'',
      response = Some \<lparr>status = 401, data_message = Some ''Unauthorized''\<rparr>\<rparr>"


definition sample_auth :: AuthState where
  "sample_auth =
     \<lparr>token = Some ''xyz'',
      user = Some \<lparr>user_id = ''u1'', name = ''Ada'', email = ''ada@example.org''\<rparr>\<rparr>"


section \<open>Facts about the concrete instances\<close>

lemma sample_ids: "map task_id (tasks sample_state) = [''a'', ''b'', ''c'']"
  by (simp add: sample_state_def sample_task_def)

lemma sample_task_id [simp]: "task_id (sample_task i t) = i"
  by (simp add: sample_task_def)

lemma sample_tasks: "tasks sample_state
   = [sample_task ''a'' ''one'', sample_task ''b'' ''two'', sample_task ''c'' ''three'']"
  by (simp add: sample_state_def)

lemma sample_currentTask: "currentTask sample_state = Some (sample_task ''b'' ''two'')"
  by (simp add: sample_state_def)


lemma sample_pagination:
  "pagination sample_state = \<lparr>page = 1, limit = 10, total = 3, totalPages = 1\<rparr>"
  by (simp add: sample_state_def)

lemma sample_response_fields:
  "resp_total (sample_response tp) = 47" "resp_limit (sample_response tp) = 10"
  "resp_totalPages (sample_response tp) = tp" "resp_page (sample_response tp) = 2"
  by (simp_all add: sample_response_def)


lemma unauthorized_fields:
  "response unauthorized = Some \<lparr>status = 401, data_message = Some ''Unauthorized''\<rparr>"
  by (simp add: unauthorized_def)

lemma browser_env_fields:
  "window_defined browser_env" "navigations browser_env = []"
  "getItem browser_env ''token'' = Some ''abc''" "getItem browser_env ''authToken'' = Some ''xyz''"
  by (simp_all add: browser_env_def getItem_def)

lemma server_env_fields:
  "\<not> window_defined server_env" "navigations server_env = []"
  by (simp_all add: server_env_def)


section \<open>Deleting a task\<close>

lemma deleteTask_fulfilled_tasks:
  "tasks (deleteTask_fulfilled state X) = filter (\<lambda>task. task_id task \<noteq> X) (tasks state)"
  by (simp add: deleteTask_fulfilled_def Let_def)

lemma deleteTask_fulfilled_currentTask:
  "currentTask (deleteTask_fulfilled state X) =
     (if currentTask_has_id state X then None else currentTask state)"
  by (simp add: deleteTask_fulfilled_def Let_def currentTask_has_id_def)

text \<open>
  Claim C6.  For every task state and every identifier \<open>X\<close> of a deleted task, after
  \<open>deleteTask.fulfilled\<close> no entry of the task list has identifier \<open>X\<close>, the entries
  with another identifier are kept in their order, and the current task is \<open>null\<close> if
  its identifier was \<open>X\<close> (and is left as it was otherwise).
\<close>

theorem deleteTask_fulfilled_removes:
  "(\<forall>t \<in> set (tasks (taskReducer state (Fulfilled (DeleteTaskResult X)))). task_id t \<noteq> X)
   \<and> tasks (taskReducer state (Fulfilled (DeleteTaskResult X)))
       = filter (\<lambda>task. task_id task \<noteq> X) (tasks state)
   \<and> (currentTask_has_id state X \<longrightarrow>
        currentTask (taskReducer state (Fulfilled (DeleteTaskResult X))) = None)
   \<and> (\<not> currentTask_has_id state X \<longrightarrow>
        currentTask (taskReducer state (Fulfilled (DeleteTaskResult X))) = currentTask state)"
  by (simp add: deleteTask_fulfilled_tasks deleteTask_fulfilled_currentTask)

theorem deleteTask_fulfilled_removes_witness:
  "currentTask_has_id sample_state ''b''
   \<and> tasks (taskReducer sample_state (Fulfilled (DeleteTaskResult ''b'')))
       = [sample_task ''a'' ''one'', sample_task ''c'' ''three'']
   \<and> currentTask (taskReducer sample_state (Fulfilled (DeleteTaskResult ''b''))) = None
   \<and> \<not> currentTask_has_id sample_state ''a''
   \<and> currentTask (taskReducer sample_state (Fulfilled (DeleteTaskResult ''a'')))
       = Some (sample_task ''b'' ''two'')"
proof -
  have b: "currentTask_has_id sample_state ''b''"
    by (simp add: currentTask_has_id_def sample_state_def sample_task_def)
  have a: "\<not> currentTask_has_id sample_state ''a''"
    by (simp add: currentTask_has_id_def sample_state_def sample_task_def)
  have ts: "filter (\<lambda>task. task_id task \<noteq> ''b'') (tasks sample_state)
              = [sample_task ''a'' ''one'', sample_task ''c'' ''three'']"
    by (simp add: sample_state_def sample_task_def)
  note at_b = deleteTask_fulfilled_removes [of sample_state "''b''"]
  note at_a = deleteTask_fulfilled_removes [of sample_state "''a''"]
  have t: "tasks (taskReducer sample_state (Fulfilled (DeleteTaskResult ''b'')))
             = [sample_task ''a'' ''one'', sample_task ''c'' ''three'']"
    using at_b ts by (elim conjE) (rule trans)
  have cb: "currentTask (taskReducer sample_state (Fulfilled (DeleteTaskResult ''b''))) = None"
    using at_b b by blast
  have ca: "currentTask (taskReducer sample_state (Fulfilled (DeleteTaskResult ''a'')))
              = currentTask sample_state"
    using at_a a by blast
  have c: "currentTask sample_state = Some (sample_task ''b'' ''two'')"
    by (simp add: sample_state_def)
  from a b t cb ca c show ?thesis
    by (simp only: simp_thms)
qed


section \<open>Updating a task\<close>

lemma findIndex_from_none:
  "0 \<le> k \<Longrightarrow> (findIndex_from P xs k = - 1) = (\<forall>x \<in> set xs. \<not> P x)"
proof (induction xs arbitrary: k)
  case Nil
  show ?case by simp
next
  case (Cons x xs)
  from Cons.prems have "0 \<le> k + 1" by simp
  from Cons.IH [OF this] Cons.prems show ?case by auto
qed

lemma findIndex_from_first:
  "findIndex_from P xs k \<noteq> - 1 \<Longrightarrow> 0 \<le> k \<Longrightarrow>
   \<exists>i < length xs. findIndex_from P xs k = k + int i \<and> P (xs ! i) \<and> (\<forall>j < i. \<not> P (xs ! j))"
proof (induction xs arbitrary: k)
  case Nil
  then show ?case by simp
next
  case (Cons x xs)
  show ?case
  proof (cases "P x")
    case True
    then show ?thesis by auto
  next
    case False
    with Cons.prems have ne: "findIndex_from P xs (k + 1) \<noteq> - 1" and k: "0 \<le> k + 1"
      by simp_all
    from Cons.IH [OF ne k] obtain i where i: "i < length xs"
      "findIndex_from P xs (k + 1) = k + 1 + int i" "P (xs ! i)" "\<forall>j < i. \<not> P (xs ! j)"
      by blast
    have "\<forall>j < Suc i. \<not> P ((x # xs) ! j)"
      using False i(4) by (auto simp: nth_Cons split: nat.splits)
    with i False show ?thesis
      by (intro exI [of _ "Suc i"]) simp
  qed
qed

lemma findIndex_none: "(findIndex P xs = - 1) = (\<forall>x \<in> set xs. \<not> P x)"
  unfolding findIndex_def by (rule findIndex_from_none) simp

lemma findIndex_first:
  "findIndex P xs \<noteq> - 1 \<Longrightarrow>
   \<exists>i < length xs. findIndex P xs = int i \<and> P (xs ! i) \<and> (\<forall>j < i. \<not> P (xs ! j))"
  unfolding findIndex_def using findIndex_from_first [of P xs 0] by simp

lemma updateTask_fulfilled_tasks:
  "tasks (updateTask_fulfilled state X) =
     (if findIndex (\<lambda>task. task_id task = task_id X) (tasks state) \<noteq> - 1
      then (tasks state)[nat (findIndex (\<lambda>task. task_id task = task_id X) (tasks state)) := X]
      else tasks state)"
  by (simp add: updateTask_fulfilled_def Let_def)

lemma updateTask_fulfilled_currentTask:
  "currentTask (updateTask_fulfilled state X) =
     (if currentTask_has_id state (task_id X) then Some X else currentTask state)"
  by (simp add: updateTask_fulfilled_def Let_def currentTask_has_id_def)

lemma updateTask_fulfilled_found:
  assumes "\<exists>t \<in> set (tasks state). task_id t = task_id X"
  shows "\<exists>i < length (tasks state). task_id (tasks state ! i) = task_id X
           \<and> (\<forall>j < i. task_id (tasks state ! j) \<noteq> task_id X)
           \<and> tasks (updateTask_fulfilled state X) = (tasks state)[i := X]"
proof -
  let ?P = "\<lambda>task. task_id task = task_id X"
  from assms have ne: "findIndex ?P (tasks state) \<noteq> - 1"
    by (simp add: findIndex_none)
  from findIndex_first [OF ne] obtain i where i: "i < length (tasks state)"
    "findIndex ?P (tasks state) = int i" "?P (tasks state ! i)"
    "\<forall>j < i. \<not> ?P (tasks state ! j)"
    by blast
  have "tasks (updateTask_fulfilled state X) = (tasks state)[i := X]"
    using ne i(2) by (simp add: updateTask_fulfilled_tasks)
  with i show ?thesis by blast
qed

lemma updateTask_fulfilled_absent:
  assumes "\<forall>t \<in> set (tasks state). task_id t \<noteq> task_id X"
  shows "tasks (updateTask_fulfilled state X) = tasks state"
proof -
  from assms have "findIndex (\<lambda>task. task_id task = task_id X) (tasks state) = - 1"
    by (simp add: findIndex_none)
  then show ?thesis by (simp add: updateTask_fulfilled_tasks)
qed

lemma updateTask_fulfilled_ids:
  "map task_id (tasks (updateTask_fulfilled state X)) = map task_id (tasks state)"
proof (cases "\<exists>t \<in> set (tasks state). task_id t = task_id X")
  case True
  from updateTask_fulfilled_found [OF True] obtain i where i: "i < length (tasks state)"
    "task_id (tasks state ! i) = task_id X"
    "tasks (updateTask_fulfilled state X) = (tasks state)[i := X]"
    by blast
  have "map task_id ((tasks state)[i := X]) = (map task_id (tasks state))[i := task_id X]"
    by (simp add: map_update)
  also have "\<dots> = map task_id (tasks state)"
    using i(1,2) by (metis list_update_id nth_map)
  finally show ?thesis using i(3) by simp
next
  case False
  then show ?thesis by (simp add: updateTask_fulfilled_absent)
qed

lemma distinct_update_map:
  assumes "distinct (map f xs)" "i < length xs" "f (xs ! i) = f x"
  shows "xs[i := x] = map (\<lambda>t. if f t = f x then x else t) xs"
proof (rule nth_equalityI)
  show "length (xs[i := x]) = length (map (\<lambda>t. if f t = f x then x else t) xs)"
    by simp
next
  fix j assume "j < length (xs[i := x])"
  then have j: "j < length xs" by simp
  show "xs[i := x] ! j = map (\<lambda>t. if f t = f x then x else t) xs ! j"
  proof (cases "j = i")
    case True
    with assms j show ?thesis by simp
  next
    case False
    have "f (xs ! j) \<noteq> f (xs ! i)"
      using assms(1,2) j False by (metis distinct_conv_nth length_map nth_map)
    with assms j False show ?thesis by simp
  qed
qed

lemma updateTask_fulfilled_distinct:
  assumes "distinct (map task_id (tasks state))"
  shows "tasks (updateTask_fulfilled state X)
           = map (\<lambda>t. if task_id t = task_id X then X else t) (tasks state)"
proof (cases "\<exists>t \<in> set (tasks state). task_id t = task_id X")
  case True
  from updateTask_fulfilled_found [OF True] obtain i where i: "i < length (tasks state)"
    "task_id (tasks state ! i) = task_id X"
    "tasks (updateTask_fulfilled state X) = (tasks state)[i := X]"
    by blast
  from distinct_update_map [OF assms i(1,2)] i(3) show ?thesis by simp
next
  case False
  then have "map (\<lambda>t. if task_id t = task_id X then X else t) (tasks state) = tasks state"
    by (simp add: map_idI)
  with False show ?thesis by (simp add: updateTask_fulfilled_absent)
qed

text \<open>
  Claim C5.  For every task state and every updated task \<open>X\<close>, \<open>updateTask.fulfilled\<close>
  keeps the sequence of identifiers of the list (so no entry is added, removed or moved);
  when an entry has \<open>X\<close>'s identifier, the first such entry is replaced by \<open>X\<close> at
  its position and every other entry is untouched; when none has, the list is unchanged;
  with identifiers that are pairwise distinct, the entries with \<open>X\<close>'s identifier are
  exactly the ones replaced by \<open>X\<close>.  The current task becomes \<open>X\<close> if it has
  \<open>X\<close>'s identifier and is left as it was otherwise.
\<close>

theorem updateTask_fulfilled_replaces:
  "map task_id (tasks (taskReducer state (Fulfilled (UpdateTaskResult X)))) = map task_id (tasks state)
   \<and> ((\<exists>t \<in> set (tasks state). task_id t = task_id X) \<longrightarrow>
        (\<exists>i < length (tasks state). task_id (tasks state ! i) = task_id X
           \<and> (\<forall>j < i. task_id (tasks state ! j) \<noteq> task_id X)
           \<and> tasks (taskReducer state (Fulfilled (UpdateTaskResult X))) = (tasks state)[i := X]))
   \<and> ((\<forall>t \<in> set (tasks state). task_id t \<noteq> task_id X) \<longrightarrow>
        tasks (taskReducer state (Fulfilled (UpdateTaskResult X))) = tasks state)
   \<and> (distinct (map task_id (tasks state)) \<longrightarrow>
        tasks (taskReducer state (Fulfilled (UpdateTaskResult X)))
          = map (\<lambda>t. if task_id t = task_id X then X else t) (tasks state))
   \<and> currentTask (taskReducer state (Fulfilled (UpdateTaskResult X)))
        = (if currentTask_has_id state (task_id X) then Some X else currentTask state)"
  using updateTask_fulfilled_ids [of state X] updateTask_fulfilled_found [of state X]
        updateTask_fulfilled_absent [of state X] updateTask_fulfilled_distinct [of state X]
        updateTask_fulfilled_currentTask [of state X]
  by (simp only: taskReducer.simps) blast

theorem updateTask_fulfilled_replaces_witness:
  "(\<exists>t \<in> set (tasks sample_state). task_id t = task_id (sample_task ''b'' ''changed''))
   \<and> distinct (map task_id (tasks sample_state))
   \<and> tasks (taskReducer sample_state (Fulfilled (UpdateTaskResult (sample_task ''b'' ''changed''))))
       = [sample_task ''a'' ''one'', sample_task ''b'' ''changed'', sample_task ''c'' ''three'']
   \<and> currentTask (taskReducer sample_state (Fulfilled (UpdateTaskResult (sample_task ''b'' ''changed''))))
       = Some (sample_task ''b'' ''changed'')
   \<and> task_id (sample_task ''z'' ''new'') \<notin> set (map task_id (tasks sample_state))
   \<and> tasks (taskReducer sample_state (Fulfilled (UpdateTaskResult (sample_task ''z'' ''new''))))
       = tasks sample_state"
proof -
  note at_b = updateTask_fulfilled_replaces [of sample_state "sample_task ''b'' ''changed''"]
  note at_z = updateTask_fulfilled_replaces [of sample_state "sample_task ''z'' ''new''"]
  have ex: "\<exists>t \<in> set (tasks sample_state). task_id t = task_id (sample_task ''b'' ''changed'')"
    by (simp add: sample_tasks)
  have d: "distinct (map task_id (tasks sample_state))"
    by (simp add: sample_ids)
  have z: "\<forall>t \<in> set (tasks sample_state). task_id t \<noteq> task_id (sample_task ''z'' ''new'')"
    by (simp add: sample_tasks)
  have m: "map (\<lambda>t. if task_id t = task_id (sample_task ''b'' ''changed'')
                     then sample_task ''b'' ''changed'' else t) (tasks sample_state)
             = [sample_task ''a'' ''one'', sample_task ''b'' ''changed'', sample_task ''c'' ''three'']"
    by (simp add: sample_tasks)
  have t: "tasks (taskReducer sample_state (Fulfilled (UpdateTaskResult (sample_task ''b'' ''changed''))))
             = [sample_task ''a'' ''one'', sample_task ''b'' ''changed'', sample_task ''c'' ''three'']"
    using at_b d m by (elim conjE) (erule impE, assumption, erule trans, assumption)
  have hb: "currentTask_has_id sample_state (task_id (sample_task ''b'' ''changed''))"
    by (simp add: currentTask_has_id_def sample_currentTask)
  have c: "currentTask (taskReducer sample_state (Fulfilled (UpdateTaskResult (sample_task ''b'' ''changed''))))
             = Some (sample_task ''b'' ''changed'')"
    using at_b hb by (elim conjE) (simp only: if_True)
  have u: "tasks (taskReducer sample_state (Fulfilled (UpdateTaskResult (sample_task ''z'' ''new''))))
             = tasks sample_state"
    using at_z z by blast
  have z': "task_id (sample_task ''z'' ''new'') \<notin> set (map task_id (tasks sample_state))"
    by (simp add: sample_ids)
  from ex d t c z' u show ?thesis by (intro conjI)
qed


section \<open>The three phases of a thunk\<close>

lemma pending_phase:
  "taskReducer state (Pending k) = state\<lparr>isLoading := True, error := None\<rparr>"
  by (cases k)
     (simp_all add: fetchTasks_pending_def fetchTask_pending_def createTask_pending_def
        updateTask_pending_def deleteTask_pending_def)

lemma rejected_phase:
  "taskReducer state (Rejected k msg) = state\<lparr>isLoading := False, error := Some msg\<rparr>"
  by (cases k)
     (simp_all add: fetchTasks_rejected_def fetchTask_rejected_def createTask_rejected_def
        updateTask_rejected_def deleteTask_rejected_def)

lemma fulfilled_isLoading: "isLoading (taskReducer state (Fulfilled r)) = False"
  by (cases r)
     (simp_all add: fetchTasks_fulfilled_def fetchTask_fulfilled_def createTask_fulfilled_def
        updateTask_fulfilled_def deleteTask_fulfilled_def Let_def)

lemma fulfilled_error: "error (taskReducer state (Fulfilled r)) = error state"
  by (cases r)
     (simp_all add: fetchTasks_fulfilled_def fetchTask_fulfilled_def createTask_fulfilled_def
        updateTask_fulfilled_def deleteTask_fulfilled_def Let_def)

lemma fetchTasks_fulfilled_merge:
  "taskReducer state (Fulfilled (FetchTasksResult p)) =
     state\<lparr>isLoading := False, tasks := resp_data p,
           pagination := \<lparr>page = resp_page p, limit = resp_limit p,
                           total = resp_total p, totalPages = resp_totalPages p\<rparr>\<rparr>"
  by (simp add: fetchTasks_fulfilled_def)

lemma fetchTask_fulfilled_merge:
  "taskReducer state (Fulfilled (FetchTaskResult t)) = state\<lparr>isLoading := False, currentTask := Some t\<rparr>"
  by (simp add: fetchTask_fulfilled_def)

lemma createTask_fulfilled_merge:
  "taskReducer state (Fulfilled (CreateTaskResult t)) = state\<lparr>isLoading := False, tasks := t # tasks state\<rparr>"
  by (simp add: createTask_fulfilled_def)

lemma updateTask_fulfilled_member:
  assumes "\<exists>t \<in> set (tasks state). task_id t = task_id X"
  shows "X \<in> set (tasks (updateTask_fulfilled state X))"
proof -
  from updateTask_fulfilled_found [OF assms] obtain i where "i < length (tasks state)"
    "tasks (updateTask_fulfilled state X) = (tasks state)[i := X]"
    by blast
  then show ?thesis by (simp add: set_update_memI)
qed


text \<open>
  Claim C7.  Each of the five thunks (fetch list, fetch one, create, update, delete)
  follows the three phases.  Its \<open>pending\<close> transition sets \<open>isLoading\<close> and clears
  \<open>error\<close>, changing nothing else; its \<open>rejected\<close> transition clears \<open>isLoading\<close>
  and stores the message, changing nothing else; its \<open>fulfilled\<close> transition clears
  \<open>isLoading\<close> and merges the result: the fetched list and pagination replace the
  state's, the fetched task becomes the current task, the created task is put in front of
  the list, the updated task takes the place of the entry with its identifier (the
  identifiers of the list stay as they are), the deleted identifier is filtered out.  The
  equations hold for every state and every payload: \<open>taskReducer\<close> is a function from
  state and action to state, with a case for every phase of every thunk and none that
  fails.
\<close>

theorem lifecycle_three_phases:
  "taskReducer state (Pending k) = state\<lparr>isLoading := True, error := None\<rparr>
   \<and> taskReducer state (Rejected k msg) = state\<lparr>isLoading := False, error := Some msg\<rparr>
   \<and> isLoading (taskReducer state (Fulfilled r)) = False
   \<and> taskReducer state (Fulfilled (FetchTasksResult p)) =
        state\<lparr>isLoading := False, tasks := resp_data p,
              pagination := \<lparr>page = resp_page p, limit = resp_limit p,
                              total = resp_total p, totalPages = resp_totalPages p\<rparr>\<rparr>
   \<and> taskReducer state (Fulfilled (FetchTaskResult t)) = state\<lparr>isLoading := False, currentTask := Some t\<rparr>
   \<and> taskReducer state (Fulfilled (CreateTaskResult t)) = state\<lparr>isLoading := False, tasks := t # tasks state\<rparr>
   \<and> map task_id (tasks (taskReducer state (Fulfilled (UpdateTaskResult t)))) = map task_id (tasks state)
   \<and> ((\<exists>u \<in> set (tasks state). task_id u = task_id t) \<longrightarrow>
        t \<in> set (tasks (taskReducer state (Fulfilled (UpdateTaskResult t)))))
   \<and> tasks (taskReducer state (Fulfilled (DeleteTaskResult i)))
        = filter (\<lambda>task. task_id task \<noteq> i) (tasks state)"
  using updateTask_fulfilled_member [of state t]
  by (simp only: pending_phase rejected_phase fulfilled_isLoading fetchTasks_fulfilled_merge
        fetchTask_fulfilled_merge createTask_fulfilled_merge taskReducer.simps
        updateTask_fulfilled_ids deleteTask_fulfilled_tasks simp_thms)
     blast


theorem lifecycle_three_phases_witness:
  "(\<exists>u \<in> set (tasks sample_state). task_id u = task_id (sample_task ''b'' ''changed''))
   \<and> sample_task ''b'' ''changed''
        \<in> set (tasks (taskReducer sample_state (Fulfilled (UpdateTaskResult (sample_task ''b'' ''changed'')))))
   \<and> taskReducer sample_state (Pending CreateTask) = sample_state\<lparr>isLoading := True, error := None\<rparr>
   \<and> taskReducer sample_state (Rejected CreateTask ''Failed to create task'')
        = sample_state\<lparr>isLoading := False, error := Some ''Failed to create task''\<rparr>"
proof -
  note inst = lifecycle_three_phases [where state = sample_state and k = CreateTask
      and msg = "''Failed to create task''" and t = "sample_task ''b'' ''changed''"]
  have ex: "\<exists>u \<in> set (tasks sample_state). task_id u = task_id (sample_task ''b'' ''changed'')"
    by (simp add: sample_tasks)
  have m: "sample_task ''b'' ''changed''
        \<in> set (tasks (taskReducer sample_state (Fulfilled (UpdateTaskResult (sample_task ''b'' ''changed'')))))"
    using inst ex by blast
  have p: "taskReducer sample_state (Pending CreateTask) = sample_state\<lparr>isLoading := True, error := None\<rparr>"
    using inst by blast
  have r: "taskReducer sample_state (Rejected CreateTask ''Failed to create task'')
        = sample_state\<lparr>isLoading := False, error := Some ''Failed to create task''\<rparr>"
    using inst by blast
  from ex m p r show ?thesis by (intro conjI)
qed



section \<open>Pagination\<close>

lemma plain_pagination:
  "pagination (setFilters state f) = pagination state"
  "pagination (clearCurrentTask state) = pagination state"
  "pagination (clearError state) = pagination state"
  by (simp_all add: setFilters_def clearCurrentTask_def clearError_def)

lemma fulfilled_pagination:
  "(\<forall>p. r \<noteq> FetchTasksResult p) \<Longrightarrow>
   pagination (taskReducer state (Fulfilled r)) = pagination state"
  by (cases r)
     (simp_all add: fetchTask_fulfilled_def createTask_fulfilled_def
        updateTask_fulfilled_def deleteTask_fulfilled_def Let_def)


text \<open>
  Claim C8.  \<open>fetchTasks.fulfilled\<close> replaces the four pagination fields by those of
  the server's response.  The fulfilled transitions of \<open>createTask\<close>, \<open>updateTask\<close>
  and \<open>deleteTask\<close> leave the pagination as it was, and so does every other action of
  the slice.
\<close>

theorem pagination_only_from_fetchTasks:
  "pagination (taskReducer state (Fulfilled (FetchTasksResult p)))
     = \<lparr>page = resp_page p, limit = resp_limit p, total = resp_total p,
        totalPages = resp_totalPages p\<rparr>
   \<and> pagination (taskReducer state (Fulfilled (CreateTaskResult t))) = pagination state
   \<and> pagination (taskReducer state (Fulfilled (UpdateTaskResult t))) = pagination state
   \<and> pagination (taskReducer state (Fulfilled (DeleteTaskResult i))) = pagination state
   \<and> ((\<forall>q. a \<noteq> Fulfilled (FetchTasksResult q)) \<longrightarrow>
        pagination (taskReducer state a) = pagination state)"
proof -
  have "pagination (taskReducer state a) = pagination state"
    if "\<forall>q. a \<noteq> Fulfilled (FetchTasksResult q)"
  proof (cases a)
    case (Fulfilled r)
    with that have "\<forall>q. r \<noteq> FetchTasksResult q" by simp
    then have "pagination (taskReducer state (Fulfilled r)) = pagination state"
      by (rule fulfilled_pagination)
    with Fulfilled show ?thesis by (simp only:)
  qed (simp_all add: plain_pagination pending_phase rejected_phase)
  then show ?thesis
    by (simp add: fetchTasks_fulfilled_def createTask_fulfilled_def
          updateTask_fulfilled_def deleteTask_fulfilled_def Let_def)
qed


theorem pagination_only_from_fetchTasks_witness:
  "(\<forall>q. Fulfilled (CreateTaskResult (sample_task ''d'' ''four'')) \<noteq> Fulfilled (FetchTasksResult q))
   \<and> pagination (taskReducer sample_state (Fulfilled (CreateTaskResult (sample_task ''d'' ''four''))))
        = \<lparr>page = 1, limit = 10, total = 3, totalPages = 1\<rparr>"
proof -
  note inst = pagination_only_from_fetchTasks [where state = sample_state
      and a = "Fulfilled (CreateTaskResult (sample_task ''d'' ''four''))"]
  have ne: "\<forall>q. Fulfilled (CreateTaskResult (sample_task ''d'' ''four'')) \<noteq> Fulfilled (FetchTasksResult q)"
    by simp
  have "pagination (taskReducer sample_state (Fulfilled (CreateTaskResult (sample_task ''d'' ''four''))))
          = pagination sample_state"
    using inst ne by blast
  with ne show ?thesis by (simp only: sample_pagination simp_thms)
qed


section \<open>The total pages after a fetch\<close>

lemma get_property_simps:
  "get_property [] k = Undefined"
  "get_property ((k', v) # ps) k = (if k = k' then v else get_property ps k)"
  by (simp_all add: get_property_def)

lemma typed_payload_pagination:
  "fetchTasks_fulfilled_pagination (PaginatedResponse_object p) =
     [(''page'', Number (page (pagination (fetchTasks_fulfilled state p)))),
      (''limit'', Number (limit (pagination (fetchTasks_fulfilled state p)))),
      (''total'', Number (total (pagination (fetchTasks_fulfilled state p)))),
      (''totalPages'', Number (totalPages (pagination (fetchTasks_fulfilled state p))))]"
  by (simp add: fetchTasks_fulfilled_pagination_def PaginatedResponse_object_def
        get_property_simps fetchTasks_fulfilled_def)

lemma response_object_pagination:
  "fetchTasks_fulfilled_pagination (fetchTasks_payload body) =
     [(''page'', Undefined), (''limit'', Undefined), (''total'', Undefined),
      (''totalPages'', Undefined)]"
  by (simp add: fetchTasks_fulfilled_pagination_def fetchTasks_payload_def
        getTasks_resolved_def axios_response_object_def get_property_simps)

lemma fetchTask_payload_body: "fetchTask_payload body = body"
  by (simp add: fetchTask_payload_def getTask_resolved_def axios_response_object_def
        get_property_simps)


text \<open>
  Claim C9.  For a paginated response with total 47 and limit 10 the total-pages value
  held in state is to be 5.  The code misses it.  The server's body reports total 47, limit
  10 and 5 pages, but the thunk dispatches the axios response that wraps the body, which
  has no property \<open>totalPages\<close>: the reducer stores \<open>undefined\<close>.  Had the thunk
  returned \<open>response.data\<close>, as its siblings do, the reducer would have stored the 5 of
  the body.
\<close>

theorem fetchTasks_dispatches_response_object:
  "get_property (PaginatedResponse_object (sample_response 5)) ''total'' = Number 47
   \<and> get_property (PaginatedResponse_object (sample_response 5)) ''limit'' = Number 10
   \<and> get_property (PaginatedResponse_object (sample_response 5)) ''totalPages'' = Number 5
   \<and> get_property
        (fetchTasks_fulfilled_pagination
           (fetchTasks_payload (Object (PaginatedResponse_object (sample_response 5)))))
        ''totalPages'' = Undefined
   \<and> get_property
        (fetchTasks_fulfilled_pagination (PaginatedResponse_object (sample_response 5)))
        ''totalPages'' = Number 5"
proof -
  have body: "get_property (PaginatedResponse_object (sample_response 5)) ''total'' = Number 47"
    "get_property (PaginatedResponse_object (sample_response 5)) ''limit'' = Number 10"
    "get_property (PaginatedResponse_object (sample_response 5)) ''totalPages'' = Number 5"
    by (simp_all add: PaginatedResponse_object_def get_property_simps sample_response_fields)
  have run: "get_property
        (fetchTasks_fulfilled_pagination
           (fetchTasks_payload (Object (PaginatedResponse_object (sample_response 5)))))
        ''totalPages'' = Undefined"
    by (simp add: response_object_pagination get_property_simps)
  have typed: "get_property
        (fetchTasks_fulfilled_pagination (PaginatedResponse_object (sample_response 5)))
        ''totalPages'' = Number 5"
    by (simp add: typed_payload_pagination [of _ initialState] get_property_simps
          fetchTasks_fulfilled_def sample_response_fields)
  from body run typed show ?thesis by (intro conjI)
qed


section \<open>The query parameters of \<open>getTasks\<close>\<close>

lemma Rep_safe_integer_Abs:
  "- 9007199254740991 \<le> n \<Longrightarrow> n \<le> 9007199254740991 \<Longrightarrow>
   Rep_safe_integer (Abs_safe_integer n) = n"
  by (simp add: Abs_safe_integer_inverse)

lemma Rep_safe_integer_zero: "(Rep_safe_integer i = 0) = (i = Abs_safe_integer 0)"
proof
  assume "Rep_safe_integer i = 0"
  then have "Abs_safe_integer (Rep_safe_integer i) = Abs_safe_integer 0" by simp
  then show "i = Abs_safe_integer 0" by (simp add: Rep_safe_integer_inverse)
next
  assume "i = Abs_safe_integer 0"
  then show "Rep_safe_integer i = 0" by (simp add: Rep_safe_integer_Abs)
qed

lemma truthy_number_iff: "truthy_number x = (x \<noteq> number_of 0 \<and> x \<noteq> NaN)"
  by (cases x) (simp_all add: number_of_def Rep_safe_integer_zero)

lemma falsy_numbers: "\<not> truthy_number (number_of 0)" "\<not> truthy_number NaN"
  by (simp_all add: truthy_number_iff)

lemma digits_of_nat_small: "n < 10 \<Longrightarrow> digits_of_nat n = [digit_char n]"
  by (simp add: digits_of_nat.simps [of n])

lemma digits_of_nat_step:
  "10 \<le> n \<Longrightarrow> digits_of_nat n = digits_of_nat (n div 10) @ [digit_char (n mod 10)]"
  by (simp add: digits_of_nat.simps [of n])

lemma digits_of_nat_nonempty: "digits_of_nat n \<noteq> []"
  by (cases "n < 10") (simp_all add: digits_of_nat_small digits_of_nat_step)

lemma String_number_nonempty: "String_number x \<noteq> []"
  by (cases x) (simp_all add: decimal_of_int_def digits_of_nat_nonempty)

lemma String_boolean_nonempty: "String_boolean b \<noteq> []"
  by (simp add: String_boolean_def)

lemma Priority_string_nonempty: "Priority_string p \<noteq> []"
  by (cases p) simp_all

lemma String_number_of:
  "- 9007199254740991 \<le> n \<Longrightarrow> n \<le> 9007199254740991 \<Longrightarrow>
   String_number (number_of n) = decimal_of_int n"
  by (simp add: number_of_def Rep_safe_integer_Abs)

lemma String_number_2: "String_number (number_of 2) = ''2''"
  by (simp add: String_number_of decimal_of_int_def digits_of_nat_small digit_char_def)

lemma String_number_10: "String_number (number_of 10) = ''10''"
  by (simp add: String_number_of decimal_of_int_def digits_of_nat_step digits_of_nat_small digit_char_def)

lemma String_number_25: "String_number (number_of 25) = ''25''"
  by (simp add: String_number_of decimal_of_int_def digits_of_nat_step digits_of_nat_small digit_char_def)

lemma truthy_numbers:
  "truthy_number (number_of 2)" "truthy_number (number_of 10)" "truthy_number (number_of 25)"
  by (simp_all add: number_of_def Rep_safe_integer_Abs)

lemma getTasks_params_None: "getTasks_params None = []"
  by (simp add: getTasks_params_def optional_chain_def)

lemma getTasks_params_Some:
  "getTasks_params (Some f) =
     (case filter_completed f of None \<Rightarrow> [] | Some c \<Rightarrow> [(''completed'', String_boolean c)])
     @ (case filter_priority f of None \<Rightarrow> [] | Some p \<Rightarrow> [(''priority'', Priority_string p)])
     @ (case filter_page f of None \<Rightarrow> []
        | Some x \<Rightarrow> if truthy_number x then [(''page'', String_number x)] else [])
     @ (case filter_limit f of None \<Rightarrow> []
        | Some x \<Rightarrow> if truthy_number x then [(''limit'', String_number x)] else [])"
  by (simp add: getTasks_params_def optional_chain_def append_param_def truthy_string_def
        Priority_string_nonempty Let_def split: option.splits)

lemma params_completed:
  "map_of (getTasks_params (Some f)) ''completed'' = map_option String_boolean (filter_completed f)"
  by (simp add: getTasks_params_Some map_add_def split: option.splits)

lemma params_priority:
  "map_of (getTasks_params (Some f)) ''priority'' = map_option Priority_string (filter_priority f)"
  by (simp add: getTasks_params_Some map_add_def split: option.splits)

lemma params_page:
  "map_of (getTasks_params (Some f)) ''page'' =
     (case filter_page f of None \<Rightarrow> None
      | Some x \<Rightarrow> if x = number_of 0 \<or> x = NaN then None else Some (String_number x))"
  by (simp add: getTasks_params_Some map_add_def truthy_number_iff split: option.splits)

lemma params_limit:
  "map_of (getTasks_params (Some f)) ''limit'' =
     (case filter_limit f of None \<Rightarrow> None
      | Some x \<Rightarrow> if x = number_of 0 \<or> x = NaN then None else Some (String_number x))"
  by (simp add: getTasks_params_Some map_add_def truthy_number_iff split: option.splits)

lemma params_names:
  "map fst (getTasks_params (Some f)) =
     (if filter_completed f \<noteq> None then [''completed''] else [])
     @ (if filter_priority f \<noteq> None then [''priority''] else [])
     @ (if (\<exists>x. filter_page f = Some x \<and> x \<noteq> number_of 0 \<and> x \<noteq> NaN) then [''page''] else [])
     @ (if (\<exists>x. filter_limit f = Some x \<and> x \<noteq> number_of 0 \<and> x \<noteq> NaN) then [''limit''] else [])"
  by (simp add: getTasks_params_Some truthy_number_iff split: option.splits)

lemma nonempty_sym: "[] \<noteq> String_number x" "[] \<noteq> String_boolean b" "[] \<noteq> Priority_string p"
  using String_number_nonempty [of x] String_boolean_nonempty [of b] Priority_string_nonempty [of p]
  by simp_all

lemma params_values_nonempty:
  "\<forall>(k, v) \<in> set (getTasks_params (Some f)). v \<noteq> []"
  by (auto simp: getTasks_params_Some String_number_nonempty String_boolean_nonempty
        Priority_string_nonempty nonempty_sym split: option.splits if_splits)

lemma keep_names:
  "\<forall>c \<in> set ''completed''. urlencoded_keep c" "\<forall>c \<in> set ''priority''. urlencoded_keep c"
  "\<forall>c \<in> set ''page''. urlencoded_keep c" "\<forall>c \<in> set ''limit''. urlencoded_keep c"
  by (simp_all add: urlencoded_keep_def)

lemma keep_values:
  "\<forall>c \<in> set ''true''. urlencoded_keep c" "\<forall>c \<in> set ''false''. urlencoded_keep c"
  "\<forall>c \<in> set ''high''. urlencoded_keep c" "\<forall>c \<in> set ''2''. urlencoded_keep c"
  "\<forall>c \<in> set ''10''. urlencoded_keep c" "\<forall>c \<in> set ''25''. urlencoded_keep c"
  by (simp_all add: urlencoded_keep_def)

lemma urlencoded_string_Nil: "urlencoded_string [] = []"
  by (simp add: urlencoded_string_def)

lemma urlencoded_string_Cons: "urlencoded_string (c # cs) = urlencoded_byte c @ urlencoded_string cs"
  by (simp add: urlencoded_string_def)

lemma urlencoded_string_keep:
  "\<forall>c \<in> set s. urlencoded_keep c \<Longrightarrow> urlencoded_string s = s"
proof (induction s)
  case Nil
  show ?case by (simp add: urlencoded_string_Nil)
next
  case (Cons c cs)
  then have k: "urlencoded_keep c" and IH: "urlencoded_string cs = cs" by simp_all
  from k have "c \<noteq> CHR '' ''" by (auto simp: urlencoded_keep_def)
  with k IH show ?case by (simp add: urlencoded_string_Cons urlencoded_byte_def)
qed

lemmas urlencoded_plain =
  keep_names [THEN urlencoded_string_keep] keep_values [THEN urlencoded_string_keep]

lemma example_params:
  "getTasks_params (Some example_filter) =
     [(''completed'', ''true''), (''priority'', ''high''), (''page'', ''2''), (''limit'', ''10'')]"
  by (simp add: getTasks_params_Some example_filter_def String_boolean_def
        String_number_2 String_number_10 truthy_numbers)

lemma example_toString:
  "URLSearchParams_toString
     [(''completed'', ''true''), (''priority'', ''high''), (''page'', ''2''), (''limit'', ''10'')]
   = ''completed=true&priority=high&page=2&limit=10''"
  by (simp add: urlencoded_plain)


text \<open>
  Claim C3.  For the filter \<open>{completed: true, priority: "high", page: 2, limit: 10}\<close>
  \<open>getTasks\<close> builds exactly the four parameters \<open>completed\<close>, \<open>priority\<close>,
  \<open>page\<close>, \<open>limit\<close>, in this order, and the query string
  \<open>completed=true&priority=high&page=2&limit=10\<close>.
\<close>

theorem getTasks_example_query:
  "getTasks_params (Some example_filter) =
     [(''completed'', ''true''), (''priority'', ''high''), (''page'', ''2''), (''limit'', ''10'')]
   \<and> getTasks_query (Some example_filter) = ''completed=true&priority=high&page=2&limit=10''
   \<and> getTasks_url (Some example_filter) = ''/api/tasks?completed=true&priority=high&page=2&limit=10''"
  unfolding getTasks_url_def getTasks_query_def example_params example_toString
  by simp


lemma falsy_params: "getTasks_params (Some falsy_filter) = [(''completed'', ''false'')]"
  by (simp add: getTasks_params_Some falsy_filter_def String_boolean_def falsy_numbers)

lemma falsy_query: "getTasks_query (Some falsy_filter) = ''completed=false''"
  unfolding getTasks_query_def falsy_params by (simp add: urlencoded_plain)

lemma page_zero_params: "getTasks_params (Some page_zero_filter) = [(''limit'', ''25'')]"
  by (simp add: getTasks_params_Some page_zero_filter_def String_number_25 falsy_numbers
        truthy_numbers)

lemma nan_params: "getTasks_params (Some nan_filter) = [(''completed'', ''true'')]"
  by (simp add: getTasks_params_Some nan_filter_def String_boolean_def)

lemma number_of_25: "number_of 25 \<noteq> number_of 0" "number_of 25 \<noteq> NaN"
  using truthy_numbers(3) by (simp_all add: truthy_number_iff)


text \<open>
  Claim C4, as amended.  For every filter object, \<open>getTasks\<close> serializes
  \<open>completed\<close> when it is set (also when it is \<open>false\<close>), \<open>priority\<close> when it is
  set, and \<open>page\<close> and \<open>limit\<close> when they are set and truthy, that is neither zero
  nor \<open>NaN\<close>; each at most once, in this order, with the string of its value, which is
  never empty; a field that is unset gets no parameter, and without a filter object there
  is no parameter at all.
\<close>

theorem getTasks_serializes_truthy_fields:
  "map fst (getTasks_params (Some f)) =
     (if filter_completed f \<noteq> None then [''completed''] else [])
     @ (if filter_priority f \<noteq> None then [''priority''] else [])
     @ (if (\<exists>x. filter_page f = Some x \<and> x \<noteq> number_of 0 \<and> x \<noteq> NaN) then [''page''] else [])
     @ (if (\<exists>x. filter_limit f = Some x \<and> x \<noteq> number_of 0 \<and> x \<noteq> NaN) then [''limit''] else [])
   \<and> map_of (getTasks_params (Some f)) ''completed'' = map_option String_boolean (filter_completed f)
   \<and> map_of (getTasks_params (Some f)) ''priority'' = map_option Priority_string (filter_priority f)
   \<and> map_of (getTasks_params (Some f)) ''page'' =
        (case filter_page f of None \<Rightarrow> None
         | Some x \<Rightarrow> if x = number_of 0 \<or> x = NaN then None else Some (String_number x))
   \<and> map_of (getTasks_params (Some f)) ''limit'' =
        (case filter_limit f of None \<Rightarrow> None
         | Some x \<Rightarrow> if x = number_of 0 \<or> x = NaN then None else Some (String_number x))
   \<and> (\<forall>(k, v) \<in> set (getTasks_params (Some f)). v \<noteq> [])
   \<and> getTasks_params None = []"
  using params_names [of f] params_completed [of f] params_priority [of f] params_page [of f]
        params_limit [of f] params_values_nonempty [of f] getTasks_params_None
  by (intro conjI)


theorem getTasks_serializes_truthy_fields_witness:
  "(''limit'', ''25'') \<in> set (getTasks_params (Some page_zero_filter))
   \<and> map fst (getTasks_params (Some page_zero_filter)) = [''limit'']
   \<and> map_of (getTasks_params (Some page_zero_filter)) ''page'' = None
   \<and> map_of (getTasks_params (Some page_zero_filter)) ''limit'' = Some ''25''
   \<and> ''25'' \<noteq> []
   \<and> map fst (getTasks_params (Some nan_filter)) = [''completed'']
   \<and> map_of (getTasks_params (Some nan_filter)) ''page'' = None"
proof -
  note inst = getTasks_serializes_truthy_fields [of page_zero_filter]
  note at_nan = getTasks_serializes_truthy_fields [of nan_filter]
  have f: "filter_completed page_zero_filter = None" "filter_priority page_zero_filter = None"
    "filter_page page_zero_filter = Some (number_of 0)"
    "filter_limit page_zero_filter = Some (number_of 25)"
    by (simp_all add: page_zero_filter_def)
  have g: "filter_completed nan_filter = Some True" "filter_priority nan_filter = None"
    "filter_page nan_filter = Some NaN" "filter_limit nan_filter = Some NaN"
    by (simp_all add: nan_filter_def)
  have names: "map fst (getTasks_params (Some page_zero_filter)) = [''limit'']"
    using inst by (simp add: f number_of_25)
  have pg: "map_of (getTasks_params (Some page_zero_filter)) ''page'' = None"
    using inst by (simp add: f)
  have lm: "map_of (getTasks_params (Some page_zero_filter)) ''limit'' = Some ''25''"
    using inst by (simp add: f String_number_25 number_of_25)
  have mem: "(''limit'', ''25'') \<in> set (getTasks_params (Some page_zero_filter))"
    using lm by (rule map_of_SomeD)
  have ne: "\<forall>(k, v) \<in> set (getTasks_params (Some page_zero_filter)). v \<noteq> []"
    using inst by blast
  from ne mem have v: "''25'' \<noteq> []" by blast
  have nn: "map fst (getTasks_params (Some nan_filter)) = [''completed'']"
    using at_nan by (simp add: g)
  have np: "map_of (getTasks_params (Some nan_filter)) ''page'' = None"
    using at_nan by (simp add: g)
  from mem names pg lm v nn np show ?thesis by (intro conjI)
qed


text \<open>
  Claim C4 as stated fails: a filter whose \<open>page\<close> is set to 0 gets no \<open>page\<close>
  parameter.
\<close>

theorem getTasks_set_fields_counterexample:
  "filter_page page_zero_filter = Some (number_of 0)
   \<and> ''page'' \<notin> set (map fst (getTasks_params (Some page_zero_filter)))
   \<and> getTasks_params (Some page_zero_filter) = [(''limit'', ''25'')]"
  by (simp add: page_zero_params) (simp add: page_zero_filter_def)


lemma params_completed_false:
  "filter_completed f = Some False \<Longrightarrow> (''completed'', ''false'') \<in> set (getTasks_params (Some f))"
  by (simp add: getTasks_params_Some String_boolean_def)

lemma params_has_page:
  "(''page'' \<in> fst ` set (getTasks_params (Some f))) =
     (\<exists>x. filter_page f = Some x \<and> x \<noteq> number_of 0 \<and> x \<noteq> NaN)"
  using params_names [of f] by (simp flip: set_map)

lemma params_has_limit:
  "(''limit'' \<in> fst ` set (getTasks_params (Some f))) =
     (\<exists>x. filter_limit f = Some x \<and> x \<noteq> number_of 0 \<and> x \<noteq> NaN)"
  using params_names [of f] by (simp flip: set_map)


text \<open>
  Claim C10.  A filter whose \<open>completed\<close> is \<open>false\<close> still yields the parameter
  \<open>completed=false\<close>.  A \<open>page\<close> parameter is sent exactly when \<open>page\<close> is set
  and truthy (neither zero nor \<open>NaN\<close>), and likewise for \<open>limit\<close>: a page or a limit
  of 0 is omitted like an unset one.
\<close>

theorem getTasks_falsy_fields:
  "(filter_completed f = Some False \<longrightarrow>
      (''completed'', ''false'') \<in> set (getTasks_params (Some f)))
   \<and> (''page'' \<in> fst ` set (getTasks_params (Some f))) =
        (\<exists>x. filter_page f = Some x \<and> x \<noteq> number_of 0 \<and> x \<noteq> NaN)
   \<and> (''limit'' \<in> fst ` set (getTasks_params (Some f))) =
        (\<exists>x. filter_limit f = Some x \<and> x \<noteq> number_of 0 \<and> x \<noteq> NaN)
   \<and> (filter_page f = Some (number_of 0) \<longrightarrow> ''page'' \<notin> fst ` set (getTasks_params (Some f)))
   \<and> (filter_limit f = Some (number_of 0) \<longrightarrow> ''limit'' \<notin> fst ` set (getTasks_params (Some f)))
   \<and> (filter_page f = Some NaN \<longrightarrow> ''page'' \<notin> fst ` set (getTasks_params (Some f)))
   \<and> (filter_limit f = Some NaN \<longrightarrow> ''limit'' \<notin> fst ` set (getTasks_params (Some f)))"
  using params_completed_false [of f]
  by (simp only: params_has_page params_has_limit) auto


theorem getTasks_falsy_fields_witness:
  "filter_completed falsy_filter = Some False
   \<and> filter_page falsy_filter = Some (number_of 0) \<and> filter_limit falsy_filter = Some (number_of 0)
   \<and> (''completed'', ''false'') \<in> set (getTasks_params (Some falsy_filter))
   \<and> ''page'' \<notin> fst ` set (getTasks_params (Some falsy_filter))
   \<and> ''limit'' \<notin> fst ` set (getTasks_params (Some falsy_filter))
   \<and> getTasks_query (Some falsy_filter) = ''completed=false''
   \<and> filter_page nan_filter = Some NaN \<and> filter_limit nan_filter = Some NaN
   \<and> ''page'' \<notin> fst ` set (getTasks_params (Some nan_filter))
   \<and> ''limit'' \<notin> fst ` set (getTasks_params (Some nan_filter))"
proof -
  note inst = getTasks_falsy_fields [of falsy_filter]
  note at_nan = getTasks_falsy_fields [of nan_filter]
  have f: "filter_completed falsy_filter = Some False" "filter_page falsy_filter = Some (number_of 0)"
    "filter_limit falsy_filter = Some (number_of 0)"
    by (simp_all add: falsy_filter_def)
  have g: "filter_page nan_filter = Some NaN" "filter_limit nan_filter = Some NaN"
    by (simp_all add: nan_filter_def)
  have c: "(''completed'', ''false'') \<in> set (getTasks_params (Some falsy_filter))"
    using inst f(1) by blast
  have p: "''page'' \<notin> fst ` set (getTasks_params (Some falsy_filter))"
    using inst f(2) by blast
  have l: "''limit'' \<notin> fst ` set (getTasks_params (Some falsy_filter))"
    using inst f(3) by blast
  have np: "''page'' \<notin> fst ` set (getTasks_params (Some nan_filter))"
    using at_nan g(1) by blast
  have nl: "''limit'' \<notin> fst ` set (getTasks_params (Some nan_filter))"
    using at_nan g(2) by blast
  from f c p l falsy_query g np nl show ?thesis by (intro conjI)
qed


section \<open>The response interceptor\<close>

lemma rejected_result: "snd (api_response_rejected env err) = Inl err"
  by (simp add: api_response_rejected_def Let_def)

lemma rejected_401_browser:
  assumes "response err = Some r" "status r = 401" "window_defined env"
  shows "localStorage (fst (api_response_rejected env err)) = (localStorage env)(''token'' := None)"
    and "navigations (fst (api_response_rejected env err)) = navigations env @ [''/auth/login'']"
  using assms
  by (simp_all add: api_response_rejected_def Let_def optional_chain_def removeItem_def
        location_href_assign_def toast_error_def)

lemma rejected_no_window:
  assumes "\<not> window_defined env"
  shows "localStorage (fst (api_response_rejected env err)) = localStorage env"
    and "navigations (fst (api_response_rejected env err)) = navigations env"
  using assms
  by (simp_all add: api_response_rejected_def Let_def toast_error_def)


text \<open>
  Claim C1.  For every error whose response has status 401 the response interceptor returns
  a rejected result carrying that error: the error is propagated, not swallowed.  In the
  browser, where the client storage and the location the claim speaks of exist
  (\<open>window\<close> defined), it has then removed the stored token, the item \<open>token\<close> of
  \<open>localStorage\<close>, leaving the other items, and started a navigation to \<open>/auth/login\<close>.
  Outside a browser, where the side effects are to be suppressed, it leaves the storage and
  the location as they were.
\<close>

theorem response_401_in_browser:
  "response err = Some r \<and> status r = 401 \<longrightarrow>
     snd (api_response_rejected env err) = Inl err
     \<and> (window_defined env \<longrightarrow>
          getItem (fst (api_response_rejected env err)) ''token'' = None
          \<and> (\<forall>k. k \<noteq> ''token'' \<longrightarrow>
                getItem (fst (api_response_rejected env err)) k = getItem env k)
          \<and> navigations (fst (api_response_rejected env err)) = navigations env @ [''/auth/login''])
     \<and> (\<not> window_defined env \<longrightarrow>
          localStorage (fst (api_response_rejected env err)) = localStorage env
          \<and> navigations (fst (api_response_rejected env err)) = navigations env)"
proof (intro impI conjI allI; (elim conjE)?)
  show "snd (api_response_rejected env err) = Inl err"
    by (rule rejected_result)
next
  assume "response err = Some r" "status r = 401" "window_defined env"
  then show "getItem (fst (api_response_rejected env err)) ''token'' = None"
    by (simp add: getItem_def rejected_401_browser)
next
  fix k :: string
  assume "response err = Some r" "status r = 401" "window_defined env" "k \<noteq> ''token''"
  then show "getItem (fst (api_response_rejected env err)) k = getItem env k"
    by (simp add: getItem_def rejected_401_browser)
next
  assume "response err = Some r" "status r = 401" "window_defined env"
  then show "navigations (fst (api_response_rejected env err)) = navigations env @ [''/auth/login'']"
    by (simp add: rejected_401_browser)
next
  assume "\<not> window_defined env"
  then show "localStorage (fst (api_response_rejected env err)) = localStorage env"
    by (rule rejected_no_window)
next
  assume "\<not> window_defined env"
  then show "navigations (fst (api_response_rejected env err)) = navigations env"
    by (rule rejected_no_window)
qed


theorem response_401_in_browser_witness:
  "response unauthorized = Some \<lparr>status = 401, data_message = Some ''Unauthorized''\<rparr>
   \<and> status \<lparr>status = 401, data_message = Some ''Unauthorized''\<rparr> = 401
   \<and> window_defined browser_env
   \<and> getItem browser_env ''token'' = Some ''abc''
   \<and> getItem (fst (api_response_rejected browser_env unauthorized)) ''token'' = None
   \<and> navigations (fst (api_response_rejected browser_env unauthorized)) = [''/auth/login'']
   \<and> snd (api_response_rejected browser_env unauthorized) = Inl unauthorized
   \<and> \<not> window_defined server_env
   \<and> navigations (fst (api_response_rejected server_env unauthorized)) = []"
proof -
  let ?r = "\<lparr>status = 401, data_message = Some ''Unauthorized''\<rparr>"
  have h: "response unauthorized = Some ?r \<and> status ?r = 401"
    by (simp add: unauthorized_fields)
  note in_browser = response_401_in_browser [of unauthorized ?r browser_env, THEN mp, OF h]
  note on_server = response_401_in_browser [of unauthorized ?r server_env, THEN mp, OF h]
  have t: "getItem (fst (api_response_rejected browser_env unauthorized)) ''token'' = None"
    using in_browser browser_env_fields(1) by blast
  have n: "navigations (fst (api_response_rejected browser_env unauthorized)) = [''/auth/login'']"
    using in_browser browser_env_fields(1,2) by simp
  have r: "snd (api_response_rejected browser_env unauthorized) = Inl unauthorized"
    using response_401_in_browser [of unauthorized ?r browser_env, THEN mp, OF h] by blast
  have s: "navigations (fst (api_response_rejected server_env unauthorized)) = []"
    using on_server server_env_fields by simp
  from h t n r s browser_env_fields(1,3) server_env_fields(1) show ?thesis by (intro conjI) simp_all
qed



section \<open>The request interceptor\<close>

lemma interceptor_Authorization:
  "headers (api_request_interceptor env config) ''Authorization'' =
     (if window_defined env
      then (case getItem env ''token'' of
              None \<Rightarrow> headers config ''Authorization''
            | Some t \<Rightarrow> if t = [] then headers config ''Authorization''
                        else Some (''Bearer '' @ t))
      else headers config ''Authorization'')"
  by (simp add: api_request_interceptor_def truthy_string_def split: option.splits)

lemma apiClient_interceptor_Authorization:
  "headers (apiClient_request_interceptor env config) ''Authorization'' =
     (if window_defined env
      then (case getItem env ''authToken'' of
              None \<Rightarrow> headers config ''Authorization''
            | Some t \<Rightarrow> if t = [] then headers config ''Authorization''
                        else Some (''Bearer '' @ t))
      else headers config ''Authorization'')"
  by (simp add: apiClient_request_interceptor_def truthy_string_def split: option.splits)

lemma api_create_no_Authorization:
  "headers ((api_create b)\<lparr>http_method := m, url := u\<rparr>) ''Authorization'' = None"
  "headers ((apiClient_create b)\<lparr>http_method := m, url := u\<rparr>) ''Authorization'' = None"
  by (simp_all add: api_create_def apiClient_create_def)

lemma api_request_Authorization:
  "headers (api_request env b m u) ''Authorization'' =
     (if window_defined env
      then (case getItem env ''token'' of
              None \<Rightarrow> None
            | Some t \<Rightarrow> if t = [] then None else Some (''Bearer '' @ t))
      else None)"
  unfolding api_request_def interceptor_Authorization api_create_no_Authorization ..

lemma apiClient_request_Authorization:
  "headers (apiClient_request env b m u) ''Authorization'' =
     (if window_defined env
      then (case getItem env ''authToken'' of
              None \<Rightarrow> None
            | Some t \<Rightarrow> if t = [] then None else Some (''Bearer '' @ t))
      else None)"
  unfolding apiClient_request_def apiClient_interceptor_Authorization api_create_no_Authorization ..

lemma api_request_present:
  "(headers (api_request env b m u) ''Authorization'' \<noteq> None) =
     (window_defined env \<and> (\<exists>t. getItem env ''token'' = Some t \<and> t \<noteq> []))"
  by (simp add: api_request_Authorization split: option.splits)

lemma api_request_cleared:
  "getItem env ''token'' = None \<Longrightarrow> headers (api_request env b m u) ''Authorization'' = None"
  by (simp add: api_request_Authorization)

lemma apiClient_request_cleared:
  "getItem env ''authToken'' = None \<Longrightarrow> headers (apiClient_request env b m u) ''Authorization'' = None"
  by (simp add: apiClient_request_Authorization)

lemma storage_step_keeps:
  "getItem env k = None \<Longrightarrow> \<forall>v. w \<noteq> SetItem k v \<Longrightarrow> getItem (storage_step env w) k = None"
  by (cases w) (auto simp: getItem_def setItem_def removeItem_def)

lemma storage_run_keeps:
  "getItem env k = None \<Longrightarrow> \<forall>w \<in> set ws. \<forall>v. w \<noteq> SetItem k v \<Longrightarrow>
   getItem (storage_run env ws) k = None"
proof (induction ws arbitrary: env)
  case Nil
  then show ?case by (simp add: storage_run_def)
next
  case (Cons w ws)
  from Cons.prems have "getItem (storage_step env w) k = None"
    by (simp add: storage_step_keeps)
  moreover from Cons.prems have "\<forall>w \<in> set ws. \<forall>v. w \<noteq> SetItem k v" by simp
  ultimately have "getItem (storage_run (storage_step env w) ws) k = None"
    by (rule Cons.IH)
  then show ?case by (simp add: storage_run_def)
qed

lemma getItem_removeItem: "getItem (removeItem k env) k = None"
  by (simp add: getItem_def removeItem_def)

lemma api_request_after_removeItem:
  assumes "\<forall>w \<in> set ws. \<forall>v. w \<noteq> SetItem ''token'' v"
  shows "headers (api_request (storage_run (removeItem ''token'' env) ws) b m u) ''Authorization'' = None"
  by (rule api_request_cleared) (rule storage_run_keeps [OF getItem_removeItem assms])

lemma api_request_after_setItem:
  assumes "window_defined env" "t \<noteq> []"
  shows "headers (api_request (setItem ''token'' t env) b m u) ''Authorization'' = Some (''Bearer '' @ t)"
  using assms by (simp add: api_request_Authorization getItem_def setItem_def)

lemma logOut_fields:
  "token (fst (logOut auth env)) = None" "user (fst (logOut auth env)) = None"
  "snd (logOut auth env) = removeItem ''authToken'' env"
  by (simp_all add: logOut_def)

lemma getItem_removeItem_other: "k \<noteq> k' \<Longrightarrow> getItem (removeItem k' env) k = getItem env k"
  by (simp add: getItem_def removeItem_def)

lemma window_defined_removeItem: "window_defined (removeItem k env) = window_defined env"
  by (simp add: removeItem_def)

lemma apiClient_request_after_logOut:
  "headers (apiClient_request (snd (logOut auth env)) b m u) ''Authorization'' = None"
  by (simp add: logOut_fields apiClient_request_cleared getItem_removeItem)

lemma api_request_after_logOut:
  "headers (api_request (snd (logOut auth env)) b m u) ''Authorization''
     = headers (api_request env b m u) ''Authorization''"
  by (simp add: logOut_fields api_request_Authorization getItem_removeItem_other
        window_defined_removeItem)

text \<open>
  Claim C2.  Once the auth token has been cleared, for example by \<open>logOut\<close>, every later
  request of the HTTP client is to omit the \<open>Authorization\<close> header.  The code misses
  it.  \<open>logOut\<close> removes the item \<open>authToken\<close>, the key under which the register page
  stores the token and which \<open>apiClient\<close> reads, while the interceptor of \<open>api\<close> reads
  the key \<open>token\<close>.  In a browser that holds a token under either key, a request of
  \<open>api\<close> carries the bearer token before \<open>logOut\<close> and still carries it afterwards,
  although the auth state and the item \<open>authToken\<close> are cleared; a request of
  \<open>apiClient\<close> omits the header.
\<close>

theorem logOut_keeps_api_token:
  "window_defined browser_env
   \<and> getItem browser_env ''token'' = Some ''abc''
   \<and> headers (api_request browser_env None ''get'' ''/api/tasks?'') ''Authorization''
        = Some ''Bearer abc''
   \<and> token (fst (logOut sample_auth browser_env)) = None
   \<and> getItem (snd (logOut sample_auth browser_env)) ''authToken'' = None
   \<and> headers (api_request (snd (logOut sample_auth browser_env)) None ''get'' ''/api/tasks?'')
        ''Authorization'' = Some ''Bearer abc''
   \<and> headers (apiClient_request (snd (logOut sample_auth browser_env)) None ''get'' ''/tasks'')
        ''Authorization'' = None"
proof -
  have before: "headers (api_request browser_env None ''get'' ''/api/tasks?'') ''Authorization''
        = Some ''Bearer abc''"
    by (simp add: api_request_Authorization browser_env_fields)
  have after: "headers (api_request (snd (logOut sample_auth browser_env)) None ''get'' ''/api/tasks?'')
        ''Authorization'' = Some ''Bearer abc''"
    by (simp only: api_request_after_logOut before)
  have gone: "getItem (snd (logOut sample_auth browser_env)) ''authToken'' = None"
    by (simp add: logOut_fields getItem_removeItem)
  from before after gone show ?thesis
    by (simp add: browser_env_fields logOut_fields(1) apiClient_request_after_logOut)
qed

end
